theory Spec2Isabelle
  imports Complex_Main
begin

section \<open>JavaScript values as App.js handles them\<close>

text \<open>
  The bodies of HTTP responses are parsed JSON, and the React state variables of
  \<^verbatim>\<open>App\<close> receive whatever such a body holds (\<^verbatim>\<open>data.summary || '...'\<close>), so the
  state is modelled over JavaScript values rather than over strings. A number is the
  rational it denotes; the code inspects numbers through truthiness only. A string is a
  sequence of code units below 256. \<open>JObj\<close> lists the own properties of an object
  (distinct keys).
\<close>

datatype js_value =
    JUndefined
  | JNull
  | JBool bool
  | JNum rat
  | JStr string
  | JArr "js_value list"
  | JObj "(string \<times> js_value) list"

text \<open>Truthiness, as \<^verbatim>\<open>!x\<close>, \<^verbatim>\<open>x || y\<close> and \<^verbatim>\<open>if (x)\<close> read it.\<close>

fun truthy :: "js_value \<Rightarrow> bool" where
  "truthy JUndefined = False"
| "truthy JNull = False"
| "truthy (JBool b) = b"
| "truthy (JNum r) = (r \<noteq> 0)"
| "truthy (JStr s) = (s \<noteq> [])"
| "truthy (JArr xs) = True"
| "truthy (JObj ps) = True"

fun typeof :: "js_value \<Rightarrow> string" where
  "typeof JUndefined = ''undefined''"
| "typeof JNull = ''object''"
| "typeof (JBool b) = ''boolean''"
| "typeof (JNum r) = ''number''"
| "typeof (JStr s) = ''string''"
| "typeof (JArr xs) = ''object''"
| "typeof (JObj ps) = ''object''"

text \<open>\<^verbatim>\<open>a || b\<close>: the left operand when it is truthy, the right one otherwise.\<close>

definition js_or :: "js_value \<Rightarrow> js_value \<Rightarrow> js_value" where
  "js_or a b = (if truthy a then a else b)"

text \<open>
  \<^verbatim>\<open>v.k\<close> for the property names App.js reads (\<^verbatim>\<open>summary\<close>, \<^verbatim>\<open>case_id\<close>,
  \<^verbatim>\<open>filename\<close>, \<^verbatim>\<open>reply\<close>, \<^verbatim>\<open>error\<close>), none of which is inherited from a
  prototype: reading from \<^verbatim>\<open>null\<close> or \<^verbatim>\<open>undefined\<close> throws a TypeError
  (\<open>None\<close>), a primitive or an array has no such property, an object yields its own
  property or \<^verbatim>\<open>undefined\<close>.
\<close>

fun get_prop :: "js_value \<Rightarrow> string \<Rightarrow> js_value option" where
  "get_prop JUndefined k = None"
| "get_prop JNull k = None"
| "get_prop (JObj ps) k = (case map_of ps k of None \<Rightarrow> Some JUndefined | Some v \<Rightarrow> Some v)"
| "get_prop v k = Some JUndefined"

text \<open>\<^verbatim>\<open>v?.k\<close>: \<^verbatim>\<open>undefined\<close> where \<^verbatim>\<open>v.k\<close> would throw.\<close>

definition opt_prop :: "js_value \<Rightarrow> string \<Rightarrow> js_value" where
  "opt_prop v k = (case get_prop v k of None \<Rightarrow> JUndefined | Some x \<Rightarrow> x)"

text \<open>\<^verbatim>\<open>s.includes(p)\<close>: \<open>p\<close> occurs in \<open>s\<close> as a contiguous run.\<close>

fun includes_str :: "string \<Rightarrow> string \<Rightarrow> bool" where
  "includes_str [] p = (p = [])"
| "includes_str (c # cs) p = (take (length p) (c # cs) = p \<or> includes_str cs p)"

text \<open>
  \<^verbatim>\<open>s.trim()\<close>: strips white space and line terminators from both ends. Below 256
  these are the code units 9 to 13, 32 and 160.
\<close>

definition is_js_space :: "char \<Rightarrow> bool" where
  "is_js_space c = (c \<in> set [CHR 0x09, CHR 0x0A, CHR 0x0B, CHR 0x0C, CHR 0x0D, CHR 0x20, CHR 0xA0])"

definition trim :: "string \<Rightarrow> string" where
  "trim s = rev (dropWhile is_js_space (rev (dropWhile is_js_space s)))"

section \<open>HTTP: requests, responses and failures\<close>

text \<open>The selected \<^verbatim>\<open>File\<close>: its name and its bytes.\<close>

record js_file =
  name :: string
  bytes :: string

record http_response =
  status :: nat
  data :: js_value

text \<open>
  What a rejected axios promise (or a \<^verbatim>\<open>throw new Error(..)\<close>) carries:
  \<^verbatim>\<open>err.message\<close>, \<^verbatim>\<open>err.code\<close> and \<^verbatim>\<open>err.response\<close>, the last two possibly
  \<^verbatim>\<open>undefined\<close>.
\<close>

record js_error =
  message :: string
  code :: "string option"
  response :: "http_response option"

text \<open>How an awaited axios call settles.\<close>

datatype outcome = Fulfilled http_response | Rejected js_error

text \<open>
  The three calls App.js makes: \<^verbatim>\<open>axios.get(.../health)\<close>, \<^verbatim>\<open>axios.post(.../upload, formData)\<close>
  with the file appended to the form, and \<^verbatim>\<open>axios.post(.../chat, {message, case_id})\<close>.
\<close>

datatype request =
    HealthGet
  | UploadPost js_file
  | ChatPost string js_value

fun request_url :: "request \<Rightarrow> string" where
  "request_url HealthGet = ''http://localhost:5001/health''"
| "request_url (UploadPost f) = ''http://localhost:5001/upload''"
| "request_url (ChatPost m c) = ''http://localhost:5001/chat''"

fun request_timeout :: "request \<Rightarrow> nat option" where
  "request_timeout HealthGet = Some 2000"
| "request_timeout (UploadPost f) = Some 30000"
| "request_timeout (ChatPost m c) = None"

section \<open>The axios-retry options (App.js, lines 6 to 12)\<close>

record retry_options =
  retries :: nat
  retryDelay :: "nat \<Rightarrow> nat"
  retryCondition :: "js_error \<Rightarrow> bool"

text \<open>
  \<^verbatim>\<open>!error.response\<close> holds exactly when there is no response object, an object being
  truthy.
\<close>

definition axiosRetryOptions :: retry_options where
  "axiosRetryOptions =
     \<lparr> retries = 3,
       retryDelay = (\<lambda>retryCount. retryCount * 1000),
       retryCondition = (\<lambda>e. code e = Some ''ECONNREFUSED'' \<or> response e = None) \<rparr>"

text \<open>
  Modelled from the spec: the retry loop itself, which belongs to the axios-retry
  library and is not in the sources. Section 4.4 describes it: a failed attempt is
  retried while fewer than \<open>retries\<close> retries have been made and the failure satisfies
  \<open>retryCondition\<close>, after a delay of \<open>retryDelay\<close> applied to the number of the retry
  (counted from 1). \<open>attempt k\<close> is how the \<open>k\<close>-th attempt settles (counted from 0);
  the result is the delays waited, in order, and the outcome handed to the caller.
\<close>

function request_with_retry ::
  "retry_options \<Rightarrow> (nat \<Rightarrow> outcome) \<Rightarrow> nat \<Rightarrow> nat list \<times> outcome" where
  "request_with_retry opts attempt retryCount =
     (case attempt retryCount of
        Fulfilled r \<Rightarrow> ([], Fulfilled r)
      | Rejected e \<Rightarrow>
          if retryCount < retries opts \<and> retryCondition opts e
          then (case request_with_retry opts attempt (Suc retryCount) of
                  (ds, out) \<Rightarrow> (retryDelay opts (Suc retryCount) # ds, out))
          else ([], Rejected e))"
  by pat_completeness auto
termination
  by (relation "measure (\<lambda>(opts, attempt, retryCount). retries opts - retryCount)") auto

declare request_with_retry.simps [simp del]

section \<open>The React state of \<^verbatim>\<open>App\<close> (App.js, lines 15 to 23)\<close>

datatype upload_status = Success | Failed

record chat_entry =
  role :: string
  content :: js_value

text \<open>
  One field for each \<^verbatim>\<open>useState\<close> (\<open>selectedFile\<close> is the variable \<^verbatim>\<open>file\<close>); \<^verbatim>\<open>uploadStatus\<close> is \<^verbatim>\<open>null\<close>,
  \<^verbatim>\<open>'success'\<close> or \<^verbatim>\<open>'failed'\<close>. \<^verbatim>\<open>userMessage\<close> is only ever set from the
  text input, so it is a string; the other fields can receive any JavaScript value
  from a response body.
\<close>

record app_state =
  selectedFile :: "js_file option"
  summary :: js_value
  error :: js_value
  userMessage :: string
  chatLog :: "chat_entry list"
  documentId :: js_value
  filename :: js_value
  isUploading :: bool
  uploadStatus :: "upload_status option"

definition initial_state :: app_state where
  "initial_state =
     \<lparr> selectedFile = None, summary = JStr [], error = JStr [], userMessage = [],
       chatLog = [], documentId = JStr [], filename = JStr [],
       isUploading = False, uploadStatus = None \<rparr>"

section \<open>The handlers\<close>

text \<open>
  A handler reads the state variables of the render that created it and writes
  through the setters, with values that never depend on the state at the time of the
  write. Each stretch of a handler between two \<^verbatim>\<open>await\<close>s is therefore a function
  from the values the handler closed over and the state it writes to, to the new state.
\<close>

subsection \<open>\<^verbatim>\<open>checkServerHealth\<close> (lines 26 to 38)\<close>

fun checkServerHealth :: "outcome \<Rightarrow> bool" where
  "checkServerHealth (Fulfilled r) = True"
| "checkServerHealth (Rejected e) = False"

subsection \<open>\<^verbatim>\<open>handleFileChange\<close> (lines 41 to 45)\<close>

text \<open>\<^verbatim>\<open>e.target.files[0]\<close> is \<^verbatim>\<open>undefined\<close> when the file list is empty.\<close>

definition handleFileChange :: "js_file list \<Rightarrow> app_state \<Rightarrow> app_state" where
  "handleFileChange files st =
     st\<lparr> selectedFile := (case files of [] \<Rightarrow> None | f # _ \<Rightarrow> Some f),
         error := JStr [],
         uploadStatus := None \<rparr>"

subsection \<open>\<^verbatim>\<open>handleUpload\<close> (lines 48 to 108)\<close>

text \<open>
  Up to the first \<^verbatim>\<open>await\<close> (lines 49 to 60). \<open>c\<close> is the state of the render the
  handler belongs to, from which it reads \<^verbatim>\<open>file\<close>; \<open>st\<close> is the state it writes
  to. The second component is the file the handler closed over when it goes on to the
  health check, \<open>None\<close> when it returned.
\<close>

definition handleUpload_start :: "app_state \<Rightarrow> app_state \<Rightarrow> app_state \<times> js_file option" where
  "handleUpload_start c st =
     (case selectedFile c of
        None \<Rightarrow>
          (st\<lparr> error := JStr ''Please select a file to upload.'',
               uploadStatus := Some Failed \<rparr>, None)
      | Some f \<Rightarrow>
          (st\<lparr> isUploading := True, error := JStr [], uploadStatus := None \<rparr>, Some f))"

text \<open>
  After the health check has settled (lines 61 to 72). The second component says
  whether the upload request is sent.
\<close>

definition handleUpload_probed :: "bool \<Rightarrow> app_state \<Rightarrow> app_state \<times> bool" where
  "handleUpload_probed isServerUp st =
     (if \<not> isServerUp
      then (st\<lparr> error := JStr ''Backend server is not running. Please start the server on http://localhost:5001 and try again.'',
                isUploading := False,
                uploadStatus := Some Failed \<rparr>, False)
      else (st, True))"

text \<open>
  The body of the \<^verbatim>\<open>try\<close> after the upload request has settled (lines 77 to 89).
  Past the check of line 80 the body is a truthy object, so reading its properties
  does not throw.
\<close>

definition invalid_response_format :: js_error where
  "invalid_response_format =
     \<lparr> message = ''Invalid response format from server'', code = None, response = None \<rparr>"

definition handleUpload_try :: "js_file \<Rightarrow> outcome \<Rightarrow> app_state \<Rightarrow> js_error + app_state" where
  "handleUpload_try f out st =
     (case out of
        Rejected e \<Rightarrow> Inl e
      | Fulfilled uploadRes \<Rightarrow>
          if \<not> truthy (data uploadRes) \<or> typeof (data uploadRes) \<noteq> ''object''
          then Inl invalid_response_format
          else Inr (st\<lparr> summary := js_or (opt_prop (data uploadRes) ''summary'') (JStr ''No summary available.''),
                        documentId := js_or (opt_prop (data uploadRes) ''case_id'') (JStr []),
                        filename := js_or (opt_prop (data uploadRes) ''filename'') (JStr (name f)),
                        chatLog := [],
                        error := JStr [],
                        uploadStatus := Some Success \<rparr>))"

text \<open>\<^verbatim>\<open>err.response?.data?.error\<close>, as both \<^verbatim>\<open>catch\<close> blocks read it.\<close>

definition reported_error :: "js_error \<Rightarrow> js_value" where
  "reported_error err =
     (case response err of None \<Rightarrow> JUndefined | Some r \<Rightarrow> opt_prop (data r) ''error'')"

text \<open>The \<^verbatim>\<open>catch\<close> block (lines 90 to 104); the logging has no effect on the state.\<close>

definition handleUpload_catch :: "js_error \<Rightarrow> app_state \<Rightarrow> app_state" where
  "handleUpload_catch err st =
     st\<lparr> error := js_or (reported_error err)
                      (if includes_str (message err) ''Access-Control''
                       then JStr ''CORS error: The frontend port does not match the allowed origin in the backend. Check the browser console for details.''
                       else JStr ''An error occurred during the upload process.''),
         uploadStatus := Some Failed \<rparr>"

text \<open>\<^verbatim>\<open>try\<close>, \<^verbatim>\<open>catch\<close> and \<^verbatim>\<open>finally\<close> (lines 71 to 107).\<close>

definition handleUpload_done :: "js_file \<Rightarrow> outcome \<Rightarrow> app_state \<Rightarrow> app_state" where
  "handleUpload_done f out st =
     (case handleUpload_try f out st of
        Inr st' \<Rightarrow> st'
      | Inl err \<Rightarrow> handleUpload_catch err st) \<lparr> isUploading := False \<rparr>"

text \<open>
  One call of \<^verbatim>\<open>handleUpload\<close> run to its end with nothing else in between, from
  a render that shows the state \<open>st\<close>, given how the health check and the upload request
  settle: the final state and the requests made, in order.
\<close>

definition handleUpload :: "outcome \<Rightarrow> outcome \<Rightarrow> app_state \<Rightarrow> app_state \<times> request list" where
  "handleUpload health upload st =
     (case handleUpload_start st st of
        (st1, None) \<Rightarrow> (st1, [])
      | (st1, Some f) \<Rightarrow>
          (case handleUpload_probed (checkServerHealth health) st1 of
             (st2, False) \<Rightarrow> (st2, [HealthGet])
           | (st2, True) \<Rightarrow> (handleUpload_done f upload st2, [HealthGet, UploadPost f])))"

subsection \<open>\<^verbatim>\<open>handleSendMessage\<close> (lines 111 to 143)\<close>

text \<open>
  Up to the \<^verbatim>\<open>await\<close> (lines 112 to 126). \<open>c\<close> is the state of the render the
  handler belongs to, from which it reads \<^verbatim>\<open>userMessage\<close>, \<^verbatim>\<open>chatLog\<close> and
  \<^verbatim>\<open>documentId\<close>; \<open>st\<close> is the state it writes to. The second component is \<open>None\<close>
  when the handler returned at once, and otherwise \<^verbatim>\<open>newChatLog\<close> with the request
  made.
\<close>

definition handleSendMessage_start ::
  "app_state \<Rightarrow> app_state \<Rightarrow> app_state \<times> (chat_entry list \<times> request) option" where
  "handleSendMessage_start c st =
     (if \<not> truthy (JStr (trim (userMessage c)))
      then (st\<lparr> error := JStr ''Please enter a message to proceed.'' \<rparr>, None)
      else
        (let newChatLog = chatLog c @ [\<lparr> role = ''user'', content = JStr (userMessage c) \<rparr>]
         in (st\<lparr> chatLog := newChatLog, userMessage := [], error := JStr [] \<rparr>,
             Some (newChatLog, ChatPost (userMessage c) (documentId c)))))"

text \<open>
  The TypeError of \<^verbatim>\<open>res.data.reply\<close> on a \<^verbatim>\<open>null\<close> or \<^verbatim>\<open>undefined\<close> body. Its
  message is the engine's and is only logged.
\<close>

definition type_error :: js_error where
  "type_error = \<lparr> message = ''Cannot read properties of null'', code = None, response = None \<rparr>"

text \<open>The body of the \<^verbatim>\<open>try\<close> once the chat request has settled (lines 127 to 132).\<close>

definition handleSendMessage_try ::
  "chat_entry list \<Rightarrow> outcome \<Rightarrow> app_state \<Rightarrow> js_error + app_state" where
  "handleSendMessage_try newChatLog out st =
     (case out of
        Rejected e \<Rightarrow> Inl e
      | Fulfilled res \<Rightarrow>
          (case get_prop (data res) ''reply'' of
             None \<Rightarrow> Inl type_error
           | Some reply \<Rightarrow>
               Inr (st\<lparr> chatLog := newChatLog @ [\<lparr> role = ''assistant'', content = reply \<rparr>] \<rparr>)))"

text \<open>The \<^verbatim>\<open>catch\<close> block (lines 133 to 142).\<close>

definition handleSendMessage_catch ::
  "chat_entry list \<Rightarrow> js_error \<Rightarrow> app_state \<Rightarrow> app_state" where
  "handleSendMessage_catch newChatLog err st =
     (let errorMsg = js_or (reported_error err)
                           (JStr ''An error occurred while processing your request.'')
      in st\<lparr> chatLog := newChatLog @ [\<lparr> role = ''assistant'', content = errorMsg \<rparr>],
             error := errorMsg \<rparr>)"

definition handleSendMessage_done ::
  "chat_entry list \<Rightarrow> outcome \<Rightarrow> app_state \<Rightarrow> app_state" where
  "handleSendMessage_done newChatLog out st =
     (case handleSendMessage_try newChatLog out st of
        Inr st' \<Rightarrow> st'
      | Inl err \<Rightarrow> handleSendMessage_catch newChatLog err st)"

text \<open>
  One call of \<^verbatim>\<open>handleSendMessage\<close> run to its end with nothing else in between,
  from a render that shows the state \<open>st\<close>, given how the chat request settles: the
  final state and the requests made.
\<close>

definition handleSendMessage :: "outcome \<Rightarrow> app_state \<Rightarrow> app_state \<times> request list" where
  "handleSendMessage chat st =
     (case handleSendMessage_start st st of
        (st1, None) \<Rightarrow> (st1, [])
      | (st1, Some (newChatLog, req)) \<Rightarrow> (handleSendMessage_done newChatLog chat st1, [req]))"

section \<open>Handlers in flight\<close>

text \<open>
  Handlers suspend at their \<^verbatim>\<open>await\<close>s and other handlers run meanwhile. The
  application between two events is the React state as the setters have left it
  (\<open>ui\<close>), the state of the last committed render (\<open>shown\<close>), the suspended handlers
  with what each closed over, and the requests made so far. A handler called by an
  event is the one the last render bound: it reads the state that render shows and
  writes to the state as it is; a suspended handler that resumes writes to the state as
  it is then. The state set is shown only after the next render.
\<close>

datatype task =
    AwaitHealth js_file
  | AwaitUpload js_file
  | AwaitChat "chat_entry list"

record system =
  ui :: app_state
  shown :: app_state
  pending :: "task list"
  sent :: "request list"

definition initial_system :: system where
  "initial_system = \<lparr> ui = initial_state, shown = initial_state, pending = [], sent = [] \<rparr>"

text \<open>
  The events: the four things the page binds (file input, upload button, text
  input, send button or Enter key), the settling of the request the \<open>i\<close>-th suspended
  handler waits for, and a render.
\<close>

datatype event =
    FileChange "js_file list"
  | UploadCall
  | InputChange string
  | SendCall
  | Settle nat outcome
  | Render

definition drop_nth :: "nat \<Rightarrow> 'a list \<Rightarrow> 'a list" where
  "drop_nth i xs = take i xs @ drop (Suc i) xs"

definition resume :: "task \<Rightarrow> outcome \<Rightarrow> app_state \<Rightarrow> app_state \<times> task list \<times> request list" where
  "resume t out st =
     (case t of
        AwaitHealth f \<Rightarrow>
          (case handleUpload_probed (checkServerHealth out) st of
             (st', False) \<Rightarrow> (st', [], [])
           | (st', True) \<Rightarrow> (st', [AwaitUpload f], [UploadPost f]))
      | AwaitUpload f \<Rightarrow> (handleUpload_done f out st, [], [])
      | AwaitChat newChatLog \<Rightarrow> (handleSendMessage_done newChatLog out st, [], []))"

text \<open>
  The upload button carries \<^verbatim>\<open>disabled={isUploading}\<close> (line 249): a click on it
  calls \<^verbatim>\<open>handleUpload\<close> unless the last render shows \<^verbatim>\<open>isUploading\<close> true. Nothing
  else on the page is guarded.
\<close>

fun dispatch :: "system \<Rightarrow> event \<Rightarrow> system" where
  "dispatch s (FileChange files) = s\<lparr> ui := handleFileChange files (ui s) \<rparr>"
| "dispatch s UploadCall =
     (if isUploading (shown s) then s
      else
        (case handleUpload_start (shown s) (ui s) of
           (st', None) \<Rightarrow> s\<lparr> ui := st' \<rparr>
         | (st', Some f) \<Rightarrow>
             s\<lparr> ui := st', pending := pending s @ [AwaitHealth f], sent := sent s @ [HealthGet] \<rparr>))"
| "dispatch s (InputChange v) = s\<lparr> ui := (ui s)\<lparr> userMessage := v \<rparr> \<rparr>"
| "dispatch s SendCall =
     (case handleSendMessage_start (shown s) (ui s) of
        (st', None) \<Rightarrow> s\<lparr> ui := st' \<rparr>
      | (st', Some (newChatLog, req)) \<Rightarrow>
          s\<lparr> ui := st', pending := pending s @ [AwaitChat newChatLog], sent := sent s @ [req] \<rparr>)"
| "dispatch s (Settle i out) =
     (if i < length (pending s)
      then (case resume (pending s ! i) out (ui s) of
              (st', ts, reqs) \<Rightarrow>
                s\<lparr> ui := st', pending := drop_nth i (pending s) @ ts, sent := sent s @ reqs \<rparr>)
      else s)"
| "dispatch s Render = s\<lparr> shown := ui s \<rparr>"

definition run :: "system \<Rightarrow> event list \<Rightarrow> system" where
  "run s evs = foldl dispatch s evs"

fun is_upload_task :: "task \<Rightarrow> bool" where
  "is_upload_task (AwaitHealth f) = True"
| "is_upload_task (AwaitUpload f) = True"
| "is_upload_task (AwaitChat l) = False"

fun is_upload_post :: "request \<Rightarrow> bool" where
  "is_upload_post (UploadPost f) = True"
| "is_upload_post r = False"

text \<open>The upload attempts in flight: the suspended calls of \<^verbatim>\<open>handleUpload\<close>.\<close>

definition uploads_in_flight :: "system \<Rightarrow> nat" where
  "uploads_in_flight s = length (filter is_upload_task (pending s))"

text \<open>
  A sequence of events in which a render happens between any two clicks on the upload
  button. The flag says whether the button has been clicked since the last render.
\<close>

fun render_between_clicks :: "bool \<Rightarrow> event list \<Rightarrow> bool" where
  "render_between_clicks clicked [] = True"
| "render_between_clicks clicked (UploadCall # evs) = (\<not> clicked \<and> render_between_clicks True evs)"
| "render_between_clicks clicked (Render # evs) = render_between_clicks False evs"
| "render_between_clicks clicked (ev # evs) = render_between_clicks clicked evs"

text \<open>
  What holds of the state as set: at most one call of \<^verbatim>\<open>handleUpload\<close> is suspended,
  and \<^verbatim>\<open>isUploading\<close> is true while one is. After a render the same holds of the
  state shown, which is what disables the button.
\<close>

definition flight_inv :: "system \<Rightarrow> bool" where
  "flight_inv s = (uploads_in_flight s \<le> 1 \<and> (0 < uploads_in_flight s \<longrightarrow> isUploading (ui s)))"

definition guard_inv :: "system \<Rightarrow> bool" where
  "guard_inv s = (flight_inv s \<and> (0 < uploads_in_flight s \<longrightarrow> isUploading (shown s)))"

section \<open>Auxiliary facts\<close>

lemmas upload_defs =
  handleUpload_def handleUpload_start_def handleUpload_probed_def
  handleUpload_done_def handleUpload_try_def handleUpload_catch_def

lemmas send_defs =
  handleSendMessage_def handleSendMessage_start_def handleSendMessage_done_def
  handleSendMessage_try_def handleSendMessage_catch_def

subsection \<open>A handler run to its end is a run of the system with nothing in between\<close>

lemma run_handleUpload:
  "pending s = [] \<Longrightarrow> shown s = ui s \<Longrightarrow> \<not> isUploading (ui s) \<Longrightarrow>
   ui (run s [UploadCall, Settle 0 health, Settle 0 upload]) = fst (handleUpload health upload (ui s)) \<and>
   sent (run s [UploadCall, Settle 0 health, Settle 0 upload]) = sent s @ snd (handleUpload health upload (ui s)) \<and>
   pending (run s [UploadCall, Settle 0 health, Settle 0 upload]) = []"
  by (cases "selectedFile (ui s)"; cases "checkServerHealth health")
     (simp_all add: run_def handleUpload_def handleUpload_start_def handleUpload_probed_def
        resume_def drop_nth_def)

lemma run_handleSendMessage:
  "pending s = [] \<Longrightarrow> shown s = ui s \<Longrightarrow>
   ui (run s [SendCall, Settle 0 chat]) = fst (handleSendMessage chat (ui s)) \<and>
   sent (run s [SendCall, Settle 0 chat]) = sent s @ snd (handleSendMessage chat (ui s)) \<and>
   pending (run s [SendCall, Settle 0 chat]) = []"
  by (cases "trim (userMessage (ui s)) = []")
     (simp_all add: run_def handleSendMessage_def handleSendMessage_start_def resume_def
        drop_nth_def Let_def)

subsection \<open>The retry loop, for any options\<close>

lemma request_with_retry_trace:
  "request_with_retry opts attempt n = (ds, out) \<Longrightarrow>
     length ds \<le> retries opts - n
   \<and> (\<forall>k < length ds. ds ! k = retryDelay opts (Suc (n + k)))
   \<and> (\<forall>k < length ds. \<exists>e. attempt (n + k) = Rejected e \<and> retryCondition opts e)
   \<and> out = attempt (n + length ds)
   \<and> (\<forall>e. out = Rejected e \<longrightarrow> n + length ds < retries opts \<longrightarrow> \<not> retryCondition opts e)"
proof (induction opts attempt n arbitrary: ds out rule: request_with_retry.induct)
  case (1 opts attempt n)
  show ?case
  proof (cases "attempt n")
    case (Fulfilled r)
    with "1.prems" show ?thesis
      by (auto simp add: request_with_retry.simps [of opts attempt n])
  next
    case (Rejected e)
    show ?thesis
    proof (cases "n < retries opts \<and> retryCondition opts e")
      case False
      with Rejected "1.prems" show ?thesis
        by (auto simp add: request_with_retry.simps [of opts attempt n])
    next
      case True
      obtain ds' out' where rest: "request_with_retry opts attempt (Suc n) = (ds', out')"
        by (cases "request_with_retry opts attempt (Suc n)")
      from True Rejected rest "1.prems"
      have ds: "ds = retryDelay opts (Suc n) # ds'" and out: "out = out'"
        by (simp_all add: request_with_retry.simps [of opts attempt n])
      from "1.IH" [OF Rejected True rest]
      have ih: "length ds' \<le> retries opts - Suc n"
        "\<forall>k < length ds'. ds' ! k = retryDelay opts (Suc (Suc n + k))"
        "\<forall>k < length ds'. \<exists>e. attempt (Suc n + k) = Rejected e \<and> retryCondition opts e"
        "out' = attempt (Suc n + length ds')"
        "\<forall>e. out' = Rejected e \<longrightarrow> Suc n + length ds' < retries opts \<longrightarrow> \<not> retryCondition opts e"
        by blast+
      have bound: "length ds \<le> retries opts - n"
        using ih(1) True ds by auto
      have delays: "\<forall>k < length ds. ds ! k = retryDelay opts (Suc (n + k))"
        using ih(2) ds by (simp add: nth_Cons split: nat.splits)
      have retried: "\<forall>k < length ds. \<exists>e. attempt (n + k) = Rejected e \<and> retryCondition opts e"
      proof (intro allI impI)
        fix k assume k: "k < length ds"
        show "\<exists>e. attempt (n + k) = Rejected e \<and> retryCondition opts e"
        proof (cases k)
          case 0
          with Rejected True show ?thesis by simp
        next
          case (Suc j)
          with k ds have "j < length ds'" by simp
          with ih(3) Suc show ?thesis by simp
        qed
      qed
      have final: "out = attempt (n + length ds)"
        using ih(4) ds out by simp
      have stop: "\<forall>e. out = Rejected e \<longrightarrow> n + length ds < retries opts \<longrightarrow> \<not> retryCondition opts e"
        using ih(5) ds out by simp
      from bound delays retried final stop show ?thesis by blast
    qed
  qed
qed

subsection \<open>The guard on the upload button\<close>

lemma filter_drop_nth:
  assumes "i < length xs"
  shows "length (filter P (drop_nth i xs)) = length (filter P xs) - (if P (xs ! i) then 1 else 0)"
proof -
  from assms have "xs = take i xs @ xs ! i # drop (Suc i) xs"
    by (rule id_take_nth_drop)
  then have "filter P xs = filter P (take i xs) @ filter P (xs ! i # drop (Suc i) xs)"
    by (metis filter_append)
  then show ?thesis
    by (simp add: drop_nth_def)
qed

lemma filter_nth_pos: "i < length xs \<Longrightarrow> P (xs ! i) \<Longrightarrow> 0 < length (filter P xs)"
  by (auto simp add: filter_empty_conv)

lemma guard_inv_initial: "guard_inv initial_system"
  by (simp add: guard_inv_def flight_inv_def initial_system_def uploads_in_flight_def)

text \<open>Only a click on the upload button changes what is shown or adds an attempt.\<close>

lemma shown_dispatch: "ev \<noteq> Render \<Longrightarrow> shown (dispatch s ev) = shown s"
  by (cases ev)
     (auto simp add: handleUpload_start_def handleSendMessage_start_def Let_def
        split: option.splits prod.splits)

lemma flight_inv_dispatch:
  assumes inv: "flight_inv s" and ev: "ev \<noteq> UploadCall"
  shows "flight_inv (dispatch s ev) \<and> uploads_in_flight (dispatch s ev) \<le> uploads_in_flight s"
proof (cases ev)
  case (FileChange files)
  with inv show ?thesis
    by (simp add: flight_inv_def uploads_in_flight_def handleFileChange_def)
next
  case UploadCall
  with ev show ?thesis
    by simp
next
  case (InputChange v)
  with inv show ?thesis
    by (simp add: flight_inv_def uploads_in_flight_def)
next
  case SendCall
  with inv show ?thesis
    by (auto simp add: flight_inv_def uploads_in_flight_def handleSendMessage_start_def Let_def)
next
  case Render
  with inv show ?thesis
    by (simp add: flight_inv_def uploads_in_flight_def)
next
  case (Settle i out)
  show ?thesis
  proof (cases "i < length (pending s)")
    case False
    with inv Settle show ?thesis
      by simp
  next
    case True
    note count = filter_drop_nth [OF True, of is_upload_task]
      filter_nth_pos [OF True, of is_upload_task]
    show ?thesis
    proof (cases "pending s ! i")
      case (AwaitHealth f)
      with inv Settle True count show ?thesis
        by (cases "checkServerHealth out")
           (auto simp add: flight_inv_def uploads_in_flight_def resume_def handleUpload_probed_def
              simp del: length_greater_0_conv)
    next
      case (AwaitUpload f)
      with inv Settle True count show ?thesis
        by (auto simp add: flight_inv_def uploads_in_flight_def resume_def handleUpload_done_def
              simp del: length_greater_0_conv)
    next
      case (AwaitChat l)
      with inv Settle True count show ?thesis
        by (auto simp add: flight_inv_def uploads_in_flight_def resume_def
              handleSendMessage_done_def handleSendMessage_try_def handleSendMessage_catch_def
              Let_def simp del: length_greater_0_conv split: outcome.splits option.splits)
    qed
  qed
qed

lemma guard_inv_dispatch:
  assumes inv: "guard_inv s" and ev: "ev \<noteq> UploadCall"
  shows "guard_inv (dispatch s ev)"
proof (cases "ev = Render")
  case True
  with inv show ?thesis
    by (simp add: guard_inv_def flight_inv_def uploads_in_flight_def)
next
  case False
  from inv have "flight_inv s"
    by (simp add: guard_inv_def)
  from flight_inv_dispatch [OF this ev] shown_dispatch [OF False, of s] inv show ?thesis
    by (auto simp add: guard_inv_def)
qed

lemma guard_inv_click: "guard_inv s \<Longrightarrow> flight_inv (dispatch s UploadCall)"
  by (cases "selectedFile (shown s)")
     (auto simp add: guard_inv_def flight_inv_def uploads_in_flight_def handleUpload_start_def)

lemma flight_inv_render: "flight_inv s \<Longrightarrow> guard_inv (dispatch s Render)"
  by (simp add: guard_inv_def flight_inv_def uploads_in_flight_def)

lemma flight_inv_run:
  "(if clicked then flight_inv s else guard_inv s) \<Longrightarrow> render_between_clicks clicked evs \<Longrightarrow>
   flight_inv (run s evs)"
proof (induction evs arbitrary: s clicked)
  case Nil
  then show ?case
    by (simp add: run_def guard_inv_def split: if_splits)
next
  case (Cons ev evs)
  have step: "run s (e # evs) = run (dispatch s e) evs" for e
    by (simp add: run_def)
  show ?case
  proof (cases "ev = UploadCall")
    case True
    with Cons.prems have inv: "guard_inv s" and rest: "render_between_clicks True evs"
      by (simp_all split: if_splits)
    from inv have "flight_inv (dispatch s UploadCall)"
      by (rule guard_inv_click)
    then have "if True then flight_inv (dispatch s UploadCall) else guard_inv (dispatch s UploadCall)"
      by simp
    from Cons.IH [OF this rest] show ?thesis
      by (simp only: True step)
  next
    case click: False
    show ?thesis
    proof (cases "ev = Render")
      case True
      with Cons.prems have inv: "flight_inv s" and rest: "render_between_clicks False evs"
        by (simp_all add: guard_inv_def split: if_splits)
      from inv have "guard_inv (dispatch s Render)"
        by (rule flight_inv_render)
      then have "if False then flight_inv (dispatch s Render) else guard_inv (dispatch s Render)"
        by simp
      from Cons.IH [OF this rest] show ?thesis
        by (simp only: True step)
    next
      case False
      with click have rest: "render_between_clicks clicked evs"
        using Cons.prems(2) by (cases ev) simp_all
      have "if clicked then flight_inv (dispatch s ev) else guard_inv (dispatch s ev)"
        using Cons.prems(1) click
        by (simp add: flight_inv_dispatch guard_inv_dispatch split: if_splits)
      from Cons.IH [OF this rest] step show ?thesis
        by simp
    qed
  qed
qed

section \<open>Properties of the session handlers\<close>

subsection \<open>C1: an inquiry with no document identity\<close>

text \<open>
  C1, as the code has it. \<^verbatim>\<open>handleSendMessage\<close> never looks at \<^verbatim>\<open>documentId\<close>: with
  the identity still empty and a text that is not blank, the chat endpoint is called
  once, with the empty identity as \<^verbatim>\<open>case_id\<close>, and a reply it returns is appended
  to the log with no error recorded.
\<close>

theorem ask_with_empty_identity_calls_chat:
  assumes "documentId st = JStr []" and "trim (userMessage st) \<noteq> []"
  shows "snd (handleSendMessage chat st) = [ChatPost (userMessage st) (JStr [])]
    \<and> (\<forall>res reply. chat = Fulfilled res \<and> get_prop (data res) ''reply'' = Some reply \<longrightarrow>
          fst (handleSendMessage chat st) =
            st\<lparr> chatLog := chatLog st @ [\<lparr> role = ''user'', content = JStr (userMessage st) \<rparr>,
                                         \<lparr> role = ''assistant'', content = reply \<rparr>],
                userMessage := [], error := JStr [] \<rparr>)"
  using assms by (auto simp add: send_defs Let_def)

text \<open>
  At the initial state, where no upload has happened, with the text \<^verbatim>\<open>hi\<close> typed:
  the chat request goes out and the answer is logged.
\<close>

theorem ask_with_empty_identity_calls_chat_witness:
  "documentId (initial_state\<lparr> userMessage := ''hi'' \<rparr>) = JStr []
   \<and> trim (userMessage (initial_state\<lparr> userMessage := ''hi'' \<rparr>)) \<noteq> []
   \<and> snd (handleSendMessage (Fulfilled \<lparr> status = 200, data = JObj [(''reply'', JStr ''ok'')] \<rparr>)
            (initial_state\<lparr> userMessage := ''hi'' \<rparr>)) = [ChatPost ''hi'' (JStr [])]
   \<and> chatLog (fst (handleSendMessage (Fulfilled \<lparr> status = 200, data = JObj [(''reply'', JStr ''ok'')] \<rparr>)
            (initial_state\<lparr> userMessage := ''hi'' \<rparr>))) =
       [\<lparr> role = ''user'', content = JStr ''hi'' \<rparr>, \<lparr> role = ''assistant'', content = JStr ''ok'' \<rparr>]"
proof -
  let ?st = "initial_state\<lparr> userMessage := ''hi'' \<rparr>"
  let ?res = "\<lparr> status = 200, data = JObj [(''reply'', JStr ''ok'')] \<rparr>"
  have id: "documentId ?st = JStr []"
    by (simp add: initial_state_def)
  have nonblank: "trim (userMessage ?st) \<noteq> []"
    by (simp add: trim_def is_js_space_def)
  have reply: "get_prop (data ?res) ''reply'' = Some (JStr ''ok'')"
    by simp
  from ask_with_empty_identity_calls_chat [OF id nonblank, of "Fulfilled ?res"] reply
  have "snd (handleSendMessage (Fulfilled ?res) ?st) = [ChatPost (userMessage ?st) (JStr [])]"
    and "fst (handleSendMessage (Fulfilled ?res) ?st) =
           ?st\<lparr> chatLog := chatLog ?st @ [\<lparr> role = ''user'', content = JStr (userMessage ?st) \<rparr>,
                                         \<lparr> role = ''assistant'', content = JStr ''ok'' \<rparr>],
                userMessage := [], error := JStr [] \<rparr>"
    by blast+
  with id nonblank show ?thesis
    by (simp add: initial_state_def)
qed

text \<open>
  The statement that such a call fails without calling the endpoint does not hold: at
  the initial state the request is made and no error is recorded.
\<close>

theorem ask_without_document_counterexample:
  "documentId initial_state = JStr []
   \<and> snd (handleSendMessage (Fulfilled \<lparr> status = 200, data = JObj [(''reply'', JStr ''ok'')] \<rparr>)
            (initial_state\<lparr> userMessage := ''hi'' \<rparr>)) = [ChatPost ''hi'' (JStr [])]
   \<and> error (fst (handleSendMessage (Fulfilled \<lparr> status = 200, data = JObj [(''reply'', JStr ''ok'')] \<rparr>)
            (initial_state\<lparr> userMessage := ''hi'' \<rparr>))) = JStr []"
  by (simp add: send_defs initial_state_def trim_def is_js_space_def Let_def)

subsection \<open>C2: an upload answered with the empty object\<close>

text \<open>
  C2, as the code has it. The validation of the upload response (line 80) rejects a
  body that is falsy or not of type \<^verbatim>\<open>object\<close>, and nothing else; a missing field
  is replaced by its default (lines 84 to 86). So an upload whose request succeeds with
  the body \<^verbatim>\<open>{}\<close> succeeds: the summary is \<^verbatim>\<open>No summary available.\<close>, the
  identity is empty, the file name is the selected file's, the log is reset. An upload
  whose request succeeds fails only on a falsy or non-object body, with the message
  \<^verbatim>\<open>An error occurred during the upload process.\<close>
\<close>

theorem upload_empty_object_succeeds:
  assumes "selectedFile st = Some f" and "checkServerHealth health"
  shows "(data r = JObj [] \<longrightarrow>
            handleUpload health (Fulfilled r) st =
              (st\<lparr> summary := JStr ''No summary available.'', documentId := JStr [],
                   filename := JStr (name f), chatLog := [], error := JStr [],
                   uploadStatus := Some Success, isUploading := False \<rparr>,
               [HealthGet, UploadPost f]))
       \<and> (\<not> truthy (data r) \<or> typeof (data r) \<noteq> ''object'' \<longrightarrow>
            handleUpload health (Fulfilled r) st =
              (st\<lparr> error := JStr ''An error occurred during the upload process.'',
                   uploadStatus := Some Failed, isUploading := False \<rparr>,
               [HealthGet, UploadPost f]))
       \<and> (uploadStatus (fst (handleUpload health (Fulfilled r) st)) = Some Failed
            \<longleftrightarrow> \<not> truthy (data r) \<or> typeof (data r) \<noteq> ''object'')"
  using assms
  by (auto simp add: upload_defs js_or_def opt_prop_def invalid_response_format_def
        reported_error_def)

text \<open>With \<^verbatim>\<open>a.pdf\<close> selected, the service up and the body \<^verbatim>\<open>{}\<close>.\<close>

theorem upload_empty_object_succeeds_witness:
  "selectedFile (initial_state\<lparr> selectedFile := Some \<lparr> name = ''a.pdf'', bytes = [] \<rparr> \<rparr>)
     = Some \<lparr> name = ''a.pdf'', bytes = [] \<rparr>
   \<and> checkServerHealth (Fulfilled \<lparr> status = 200, data = JObj [] \<rparr>)
   \<and> data \<lparr> status = 200, data = JObj [] \<rparr> = JObj []
   \<and> handleUpload (Fulfilled \<lparr> status = 200, data = JObj [] \<rparr>)
        (Fulfilled \<lparr> status = 200, data = JObj [] \<rparr>)
        (initial_state\<lparr> selectedFile := Some \<lparr> name = ''a.pdf'', bytes = [] \<rparr> \<rparr>) =
       (initial_state\<lparr> selectedFile := Some \<lparr> name = ''a.pdf'', bytes = [] \<rparr>,
                       summary := JStr ''No summary available.'',
                       filename := JStr ''a.pdf'',
                       uploadStatus := Some Success \<rparr>,
        [HealthGet, UploadPost \<lparr> name = ''a.pdf'', bytes = [] \<rparr>])"
proof -
  let ?f = "\<lparr> name = ''a.pdf'', bytes = [] \<rparr>"
  let ?st = "initial_state\<lparr> selectedFile := Some ?f \<rparr>"
  let ?r = "\<lparr> status = 200, data = JObj [] \<rparr>"
  have sel: "selectedFile ?st = Some ?f"
    by simp
  have up: "checkServerHealth (Fulfilled ?r)"
    by simp
  have body: "data ?r = JObj []"
    by simp
  from upload_empty_object_succeeds [OF sel up, of ?r] body
  have "handleUpload (Fulfilled ?r) (Fulfilled ?r) ?st =
          (?st\<lparr> summary := JStr ''No summary available.'', documentId := JStr [],
                filename := JStr (name ?f), chatLog := [], error := JStr [],
                uploadStatus := Some Success, isUploading := False \<rparr>,
           [HealthGet, UploadPost ?f])"
    by blast
  then show ?thesis
    by (simp add: initial_state_def)
qed

text \<open>
  The statement that the body \<^verbatim>\<open>{}\<close> makes the upload fail does not hold: the
  outcome is a success with an empty identity and no error.
\<close>

theorem upload_empty_object_counterexample:
  "uploadStatus (fst (handleUpload (Fulfilled \<lparr> status = 200, data = JObj [] \<rparr>)
       (Fulfilled \<lparr> status = 200, data = JObj [] \<rparr>)
       (initial_state\<lparr> selectedFile := Some \<lparr> name = ''a.pdf'', bytes = [] \<rparr> \<rparr>))) = Some Success
   \<and> documentId (fst (handleUpload (Fulfilled \<lparr> status = 200, data = JObj [] \<rparr>)
       (Fulfilled \<lparr> status = 200, data = JObj [] \<rparr>)
       (initial_state\<lparr> selectedFile := Some \<lparr> name = ''a.pdf'', bytes = [] \<rparr> \<rparr>))) = JStr []
   \<and> error (fst (handleUpload (Fulfilled \<lparr> status = 200, data = JObj [] \<rparr>)
       (Fulfilled \<lparr> status = 200, data = JObj [] \<rparr>)
       (initial_state\<lparr> selectedFile := Some \<lparr> name = ''a.pdf'', bytes = [] \<rparr> \<rparr>))) = JStr []"
  by (simp add: upload_defs js_or_def opt_prop_def initial_state_def)

subsection \<open>C3: selecting a document\<close>

text \<open>
  C3, as the code has it. \<^verbatim>\<open>handleFileChange\<close> stores the first file of the
  selection, clears the error message and resets \<^verbatim>\<open>uploadStatus\<close> to \<^verbatim>\<open>null\<close>. It
  leaves the document identity, the summary, the confirmed file name and the log as
  they were, so an inquiry sent afterwards still carries the identity of the earlier
  upload: no new upload is forced.
\<close>

theorem select_document_keeps_identity:
  "uploadStatus (handleFileChange files st) = None
   \<and> error (handleFileChange files st) = JStr []
   \<and> selectedFile (handleFileChange files st) = (case files of [] \<Rightarrow> None | f # _ \<Rightarrow> Some f)
   \<and> documentId (handleFileChange files st) = documentId st
   \<and> summary (handleFileChange files st) = summary st
   \<and> filename (handleFileChange files st) = filename st
   \<and> chatLog (handleFileChange files st) = chatLog st
   \<and> snd (handleSendMessage chat (handleFileChange files st)) = snd (handleSendMessage chat st)"
  by (simp add: handleFileChange_def handleSendMessage_def handleSendMessage_start_def Let_def)

text \<open>After an upload that gave the identity \<^verbatim>\<open>C123\<close>, selecting \<^verbatim>\<open>b.pdf\<close>.\<close>

theorem select_document_keeps_identity_witness:
  "uploadStatus (handleFileChange [\<lparr> name = ''b.pdf'', bytes = [] \<rparr>]
      (initial_state\<lparr> documentId := JStr ''C123'', uploadStatus := Some Success \<rparr>)) = None
   \<and> selectedFile (handleFileChange [\<lparr> name = ''b.pdf'', bytes = [] \<rparr>]
      (initial_state\<lparr> documentId := JStr ''C123'', uploadStatus := Some Success \<rparr>))
        = Some \<lparr> name = ''b.pdf'', bytes = [] \<rparr>
   \<and> documentId (handleFileChange [\<lparr> name = ''b.pdf'', bytes = [] \<rparr>]
      (initial_state\<lparr> documentId := JStr ''C123'', uploadStatus := Some Success \<rparr>)) = JStr ''C123''"
  using select_document_keeps_identity
    [of "[\<lparr> name = ''b.pdf'', bytes = [] \<rparr>]"
        "initial_state\<lparr> documentId := JStr ''C123'', uploadStatus := Some Success \<rparr>"]
  by simp

text \<open>
  The statement that selecting a document clears the identity does not hold: the
  identity \<^verbatim>\<open>C123\<close> survives the selection, and the next inquiry is sent with it.
\<close>

theorem select_document_counterexample:
  "documentId (handleFileChange [\<lparr> name = ''b.pdf'', bytes = [] \<rparr>]
      (initial_state\<lparr> documentId := JStr ''C123'', uploadStatus := Some Success \<rparr>)) = JStr ''C123''
   \<and> snd (handleSendMessage (Fulfilled \<lparr> status = 200, data = JObj [(''reply'', JStr ''ok'')] \<rparr>)
        (handleFileChange [\<lparr> name = ''b.pdf'', bytes = [] \<rparr>]
           (initial_state\<lparr> documentId := JStr ''C123'', uploadStatus := Some Success,
                           userMessage := ''hi'' \<rparr>)))
       = [ChatPost ''hi'' (JStr ''C123'')]"
  by (simp add: handleFileChange_def initial_state_def handleSendMessage_def
        handleSendMessage_start_def Let_def trim_def is_js_space_def)

subsection \<open>C4: a second upload call while one is in flight\<close>

text \<open>
  C4, as the code has it. \<^verbatim>\<open>handleUpload\<close> itself has no guard: with a file
  selected it goes on to the health check whatever \<^verbatim>\<open>isUploading\<close> is. The only
  guard is the upload button, disabled when the last render shows \<^verbatim>\<open>isUploading\<close>
  true. So a click on the button while the last render still shows \<^verbatim>\<open>isUploading\<close>
  false starts a further attempt, even when one is in flight. When a render happens
  between any two clicks on the button, at most one upload attempt is in flight at any
  time, and while one is in flight a click after the next render sends nothing and
  changes nothing.
\<close>

theorem upload_button_guard:
  assumes "render_between_clicks False evs"
  shows "uploads_in_flight (run initial_system evs) \<le> 1
    \<and> (0 < uploads_in_flight (run initial_system evs) \<longrightarrow>
          dispatch (dispatch (run initial_system evs) Render) UploadCall
            = dispatch (run initial_system evs) Render)
    \<and> (selectedFile c = Some f \<longrightarrow> snd (handleUpload_start c st) = Some f)
    \<and> (\<not> isUploading (shown s) \<and> selectedFile (shown s) = Some f \<longrightarrow>
          sent (dispatch s UploadCall) = sent s @ [HealthGet]
          \<and> uploads_in_flight (dispatch s UploadCall) = Suc (uploads_in_flight s))"
proof -
  from guard_inv_initial assms have inv: "flight_inv (run initial_system evs)"
    using flight_inv_run [of False initial_system evs] by simp
  then have one: "uploads_in_flight (run initial_system evs) \<le> 1"
    by (simp add: flight_inv_def)
  from flight_inv_render [OF inv]
  have noop: "0 < uploads_in_flight (run initial_system evs) \<longrightarrow>
          dispatch (dispatch (run initial_system evs) Render) UploadCall
            = dispatch (run initial_system evs) Render"
    by (simp add: guard_inv_def uploads_in_flight_def)
  have unguarded: "selectedFile c = Some f \<longrightarrow> snd (handleUpload_start c st) = Some f"
    by (simp add: handleUpload_start_def)
  have stale: "\<not> isUploading (shown s) \<and> selectedFile (shown s) = Some f \<longrightarrow>
          sent (dispatch s UploadCall) = sent s @ [HealthGet]
          \<and> uploads_in_flight (dispatch s UploadCall) = Suc (uploads_in_flight s)"
    by (simp add: handleUpload_start_def uploads_in_flight_def)
  from one noop unguarded stale show ?thesis
    by blast
qed

text \<open>
  \<^verbatim>\<open>a.pdf\<close> is selected, the page renders, the button is clicked: one attempt is
  in flight, and after the next render a second click sends nothing.
\<close>

theorem upload_button_guard_witness:
  "render_between_clicks False [FileChange [\<lparr> name = ''a.pdf'', bytes = [] \<rparr>], Render, UploadCall]
   \<and> uploads_in_flight
        (run initial_system [FileChange [\<lparr> name = ''a.pdf'', bytes = [] \<rparr>], Render, UploadCall]) = 1
   \<and> dispatch (dispatch
        (run initial_system [FileChange [\<lparr> name = ''a.pdf'', bytes = [] \<rparr>], Render, UploadCall])
        Render) UploadCall
      = dispatch
        (run initial_system [FileChange [\<lparr> name = ''a.pdf'', bytes = [] \<rparr>], Render, UploadCall])
        Render
   \<and> sent (run initial_system
        [FileChange [\<lparr> name = ''a.pdf'', bytes = [] \<rparr>], Render, UploadCall, Render, UploadCall])
      = [HealthGet]"
proof -
  let ?evs = "[FileChange [\<lparr> name = ''a.pdf'', bytes = [] \<rparr>], Render, UploadCall]"
  have between: "render_between_clicks False ?evs"
    by simp
  have flying: "uploads_in_flight (run initial_system ?evs) = 1"
    by (simp add: run_def initial_system_def initial_state_def handleFileChange_def
          handleUpload_start_def uploads_in_flight_def)
  from upload_button_guard [OF between] flying
  have noop: "dispatch (dispatch (run initial_system ?evs) Render) UploadCall
                = dispatch (run initial_system ?evs) Render"
    by simp
  have "run initial_system (?evs @ [Render, UploadCall])
          = dispatch (dispatch (run initial_system ?evs) Render) UploadCall"
    by (simp add: run_def)
  with noop have "sent (run initial_system (?evs @ [Render, UploadCall]))
          = sent (dispatch (run initial_system ?evs) Render)"
    by simp
  moreover have "sent (dispatch (run initial_system ?evs) Render) = [HealthGet]"
    by (simp add: run_def initial_system_def initial_state_def handleFileChange_def
          handleUpload_start_def)
  ultimately show ?thesis
    using between flying noop by simp
qed

text \<open>
  The statement that a second call while the first is in flight is a no-op does not
  hold. With \<^verbatim>\<open>a.pdf\<close> selected and rendered, two clicks with no render between them
  both call \<^verbatim>\<open>handleUpload\<close>: two attempts are in flight, two health checks are sent,
  and once both checks have succeeded two upload requests have been made.
\<close>

theorem upload_twice_counterexample:
  "uploads_in_flight
      (run initial_system [FileChange [\<lparr> name = ''a.pdf'', bytes = [] \<rparr>], Render, UploadCall]) = 1
   \<and> uploads_in_flight
      (run initial_system
         [FileChange [\<lparr> name = ''a.pdf'', bytes = [] \<rparr>], Render, UploadCall, UploadCall]) = 2
   \<and> sent (run initial_system
         [FileChange [\<lparr> name = ''a.pdf'', bytes = [] \<rparr>], Render, UploadCall, UploadCall])
      = [HealthGet, HealthGet]
   \<and> length (filter is_upload_post
        (sent (run initial_system
           [FileChange [\<lparr> name = ''a.pdf'', bytes = [] \<rparr>], Render, UploadCall, UploadCall,
            Settle 0 (Fulfilled \<lparr> status = 200, data = JNull \<rparr>),
            Settle 0 (Fulfilled \<lparr> status = 200, data = JNull \<rparr>)]))) = 2"
  by (simp add: run_def initial_system_def initial_state_def handleFileChange_def
        handleUpload_start_def resume_def handleUpload_probed_def drop_nth_def
        uploads_in_flight_def)

subsection \<open>C5: one operator turn and one assistant turn for each inquiry\<close>




subsection \<open>C6: the payload of a successful upload\<close>

text \<open>
  C6. When a file is selected, the health check succeeds and the upload request
  succeeds with a body whose \<^verbatim>\<open>summary\<close> is \<^verbatim>\<open>S\<close>, whose \<^verbatim>\<open>case_id\<close> is
  \<^verbatim>\<open>C123\<close> and whose \<^verbatim>\<open>filename\<close> is \<^verbatim>\<open>f.pdf\<close>, the upload status is
  \<^verbatim>\<open>success\<close>, the document identity is \<^verbatim>\<open>C123\<close> and the log is empty (and the
  summary and the file name are those of the body).
\<close>

theorem upload_success_payload:
  assumes "selectedFile st = Some f" and "checkServerHealth health"
    and "data r = JObj ps"
    and "map_of ps ''summary'' = Some (JStr ''S'')"
    and "map_of ps ''case_id'' = Some (JStr ''C123'')"
    and "map_of ps ''filename'' = Some (JStr ''f.pdf'')"
  shows "handleUpload health (Fulfilled r) st =
           (st\<lparr> summary := JStr ''S'', documentId := JStr ''C123'', filename := JStr ''f.pdf'',
                chatLog := [], error := JStr [], uploadStatus := Some Success,
                isUploading := False \<rparr>,
            [HealthGet, UploadPost f])"
  using assms by (simp add: upload_defs js_or_def opt_prop_def)

text \<open>From a state that holds an earlier conversation.\<close>

theorem upload_success_payload_witness:
  "uploadStatus (fst (handleUpload (Fulfilled \<lparr> status = 200, data = JNull \<rparr>)
       (Fulfilled \<lparr> status = 200,
                    data = JObj [(''summary'', JStr ''S''), (''case_id'', JStr ''C123''),
                                 (''filename'', JStr ''f.pdf'')] \<rparr>)
       (initial_state\<lparr> selectedFile := Some \<lparr> name = ''a.pdf'', bytes = [] \<rparr>,
                       chatLog := [\<lparr> role = ''user'', content = JStr ''hi'' \<rparr>] \<rparr>))) = Some Success
   \<and> documentId (fst (handleUpload (Fulfilled \<lparr> status = 200, data = JNull \<rparr>)
       (Fulfilled \<lparr> status = 200,
                    data = JObj [(''summary'', JStr ''S''), (''case_id'', JStr ''C123''),
                                 (''filename'', JStr ''f.pdf'')] \<rparr>)
       (initial_state\<lparr> selectedFile := Some \<lparr> name = ''a.pdf'', bytes = [] \<rparr>,
                       chatLog := [\<lparr> role = ''user'', content = JStr ''hi'' \<rparr>] \<rparr>))) = JStr ''C123''
   \<and> chatLog (fst (handleUpload (Fulfilled \<lparr> status = 200, data = JNull \<rparr>)
       (Fulfilled \<lparr> status = 200,
                    data = JObj [(''summary'', JStr ''S''), (''case_id'', JStr ''C123''),
                                 (''filename'', JStr ''f.pdf'')] \<rparr>)
       (initial_state\<lparr> selectedFile := Some \<lparr> name = ''a.pdf'', bytes = [] \<rparr>,
                       chatLog := [\<lparr> role = ''user'', content = JStr ''hi'' \<rparr>] \<rparr>))) = []"
proof -
  let ?f = "\<lparr> name = ''a.pdf'', bytes = [] \<rparr>"
  let ?st = "initial_state\<lparr> selectedFile := Some ?f,
                            chatLog := [\<lparr> role = ''user'', content = JStr ''hi'' \<rparr>] \<rparr>"
  let ?ps = "[(''summary'', JStr ''S''), (''case_id'', JStr ''C123''), (''filename'', JStr ''f.pdf'')]"
  let ?r = "\<lparr> status = 200, data = JObj ?ps \<rparr>"
  have sel: "selectedFile ?st = Some ?f" by simp
  have up: "checkServerHealth (Fulfilled \<lparr> status = 200, data = JNull \<rparr>)" by simp
  have body: "data ?r = JObj ?ps" by simp
  have s: "map_of ?ps ''summary'' = Some (JStr ''S'')" by simp
  have c: "map_of ?ps ''case_id'' = Some (JStr ''C123'')" by simp
  have n: "map_of ?ps ''filename'' = Some (JStr ''f.pdf'')" by simp
  from upload_success_payload [OF sel up body s c n] show ?thesis
    by simp
qed

subsection \<open>C7: the service does not answer the health check\<close>

text \<open>
  C7. When a file is selected and \<^verbatim>\<open>checkServerHealth\<close> returns false, the upload
  ends as failed with the message that the backend server is not running, and the only
  request made is the health check: the upload endpoint is not called.
\<close>

theorem upload_probe_false:
  assumes "selectedFile st = Some f" and "\<not> checkServerHealth health"
  shows "handleUpload health upload st =
           (st\<lparr> isUploading := False,
                error := JStr ''Backend server is not running. Please start the server on http://localhost:5001 and try again.'',
                uploadStatus := Some Failed \<rparr>,
            [HealthGet])
    \<and> filter is_upload_post (snd (handleUpload health upload st)) = []"
  using assms by (simp add: upload_defs)

text \<open>The health check is refused; the upload request would have succeeded.\<close>

theorem upload_probe_false_witness:
  "\<not> checkServerHealth (Rejected \<lparr> message = ''Network Error'', code = Some ''ERR_NETWORK'', response = None \<rparr>)
   \<and> handleUpload
        (Rejected \<lparr> message = ''Network Error'', code = Some ''ERR_NETWORK'', response = None \<rparr>)
        (Fulfilled \<lparr> status = 200, data = JObj [(''case_id'', JStr ''C123'')] \<rparr>)
        (initial_state\<lparr> selectedFile := Some \<lparr> name = ''a.pdf'', bytes = [] \<rparr> \<rparr>) =
       (initial_state\<lparr> selectedFile := Some \<lparr> name = ''a.pdf'', bytes = [] \<rparr>,
                       error := JStr ''Backend server is not running. Please start the server on http://localhost:5001 and try again.'',
                       uploadStatus := Some Failed \<rparr>,
        [HealthGet])"
proof -
  let ?f = "\<lparr> name = ''a.pdf'', bytes = [] \<rparr>"
  let ?st = "initial_state\<lparr> selectedFile := Some ?f \<rparr>"
  let ?h = "Rejected \<lparr> message = ''Network Error'', code = Some ''ERR_NETWORK'', response = None \<rparr>"
  have sel: "selectedFile ?st = Some ?f" by simp
  have down: "\<not> checkServerHealth ?h" by simp
  from upload_probe_false [OF sel down] down show ?thesis
    by (simp add: initial_state_def)
qed

subsection \<open>C8: the retry policy of the transport\<close>

text \<open>
  C8. The options given to axios-retry allow 3 retries, make the delay before
  retry number \<open>n\<close> equal to \<open>n\<close> times 1000 ms, which is strictly increasing, and
  select for a retry exactly the failures whose code is \<^verbatim>\<open>ECONNREFUSED\<close> or that
  carry no response. Under the retry loop run with these options, a request is retried
  at most 3 times, the delays waited are 1000, 2000, ... in this order, every attempt
  that was retried had failed with such a failure, and the outcome handed to the caller
  is that of the last attempt, which, if it is a failure after fewer than 3 retries, is
  not of the retried kind.
\<close>

theorem axios_retry_policy:
  "retries axiosRetryOptions = 3
   \<and> (\<forall>n. retryDelay axiosRetryOptions n = n * 1000)
   \<and> (\<forall>m n. m < n \<longrightarrow> retryDelay axiosRetryOptions m < retryDelay axiosRetryOptions n)
   \<and> (\<forall>e. retryCondition axiosRetryOptions e
            \<longleftrightarrow> (code e = Some ''ECONNREFUSED'' \<or> response e = None))
   \<and> (request_with_retry axiosRetryOptions attempt 0 = (ds, out) \<longrightarrow>
          length ds \<le> 3
        \<and> ds = map (\<lambda>k. Suc k * 1000) [0 ..< length ds]
        \<and> sorted_wrt (<) ds
        \<and> (\<forall>k < length ds. \<exists>e. attempt k = Rejected e
               \<and> (code e = Some ''ECONNREFUSED'' \<or> response e = None))
        \<and> out = attempt (length ds)
        \<and> (\<forall>e. out = Rejected e \<and> length ds < 3
               \<longrightarrow> \<not> (code e = Some ''ECONNREFUSED'' \<or> response e = None)))"
proof -
  have opts: "retries axiosRetryOptions = 3"
    "\<And>n. retryDelay axiosRetryOptions n = n * 1000"
    "\<And>e. retryCondition axiosRetryOptions e
            \<longleftrightarrow> (code e = Some ''ECONNREFUSED'' \<or> response e = None)"
    by (simp_all add: axiosRetryOptions_def)
  have loop:
    "length ds \<le> 3
     \<and> ds = map (\<lambda>k. Suc k * 1000) [0 ..< length ds]
     \<and> sorted_wrt (<) ds
     \<and> (\<forall>k < length ds. \<exists>e. attempt k = Rejected e
            \<and> (code e = Some ''ECONNREFUSED'' \<or> response e = None))
     \<and> out = attempt (length ds)
     \<and> (\<forall>e. out = Rejected e \<and> length ds < 3
            \<longrightarrow> \<not> (code e = Some ''ECONNREFUSED'' \<or> response e = None))"
    if ran: "request_with_retry axiosRetryOptions attempt 0 = (ds, out)"
  proof -
    from request_with_retry_trace [OF ran]
    have t: "length ds \<le> 3"
      "\<forall>k < length ds. ds ! k = Suc k * 1000"
      "\<forall>k < length ds. \<exists>e. attempt k = Rejected e
          \<and> (code e = Some ''ECONNREFUSED'' \<or> response e = None)"
      "out = attempt (length ds)"
      "\<forall>e. out = Rejected e \<longrightarrow> length ds < 3
          \<longrightarrow> \<not> (code e = Some ''ECONNREFUSED'' \<or> response e = None)"
      by (simp_all add: opts)
    have delays: "ds = map (\<lambda>k. Suc k * 1000) [0 ..< length ds]"
      using t(2) by (intro nth_equalityI) simp_all
    have increasing: "sorted_wrt (<) ds"
      using t(2) by (simp add: sorted_wrt_iff_nth_less)
    from t delays increasing show ?thesis
      by blast
  qed
  from opts loop show ?thesis
    by simp
qed

text \<open>
  A service that refuses the connection on the first two attempts and answers 500 on
  the third: two retries, after 1000 and 2000 ms, and the 500 is handed to the caller
  without a further retry.
\<close>

theorem axios_retry_policy_witness:
  "request_with_retry axiosRetryOptions
      (\<lambda>k. if k < 2
            then Rejected \<lparr> message = ''connect ECONNREFUSED'', code = Some ''ECONNREFUSED'', response = None \<rparr>
            else Rejected \<lparr> message = ''Request failed with status code 500'', code = Some ''ERR_BAD_RESPONSE'',
                            response = Some \<lparr> status = 500, data = JNull \<rparr> \<rparr>) 0
     = ([1000, 2000],
        Rejected \<lparr> message = ''Request failed with status code 500'', code = Some ''ERR_BAD_RESPONSE'',
                   response = Some \<lparr> status = 500, data = JNull \<rparr> \<rparr>)
   \<and> length [1000, 2000 :: nat] \<le> 3
   \<and> sorted_wrt (<) [1000, 2000 :: nat]"
proof -
  let ?attempt = "\<lambda>k::nat. if k < 2
      then Rejected \<lparr> message = ''connect ECONNREFUSED'', code = Some ''ECONNREFUSED'', response = None \<rparr>
      else Rejected \<lparr> message = ''Request failed with status code 500'', code = Some ''ERR_BAD_RESPONSE'',
                      response = Some \<lparr> status = 500, data = JNull \<rparr> \<rparr>"
  let ?out = "Rejected \<lparr> message = ''Request failed with status code 500'', code = Some ''ERR_BAD_RESPONSE'',
                         response = Some \<lparr> status = 500, data = JNull \<rparr> \<rparr>"
  have ran: "request_with_retry axiosRetryOptions ?attempt 0 = ([1000, 2000], ?out)"
    by (simp add: request_with_retry.simps axiosRetryOptions_def)
  from axios_retry_policy [of ?attempt "[1000, 2000]" ?out] ran
  have "length [1000, 2000 :: nat] \<le> 3 \<and> sorted_wrt (<) [1000, 2000 :: nat]"
    by blast
  with ran show ?thesis
    by blast
qed

subsection \<open>C9: what a failed upload leaves untouched\<close>

text \<open>
  C9. Whenever a call of \<^verbatim>\<open>handleUpload\<close> ends with the upload status
  \<^verbatim>\<open>failed\<close>, whatever the reason, the log, the document identity, the summary and
  the confirmed file name are what they were before the call, and the final state
  differs from the initial one in nothing but the error message, the upload status and
  the in-progress flag.
\<close>

theorem upload_failed_frame:
  assumes "handleUpload health upload st = (st', reqs)"
    and "uploadStatus st' = Some Failed"
  shows "chatLog st' = chatLog st
    \<and> documentId st' = documentId st
    \<and> summary st' = summary st
    \<and> filename st' = filename st
    \<and> st' = st\<lparr> error := error st', isUploading := isUploading st', uploadStatus := Some Failed \<rparr>"
  using assms
  by (cases "selectedFile st"; cases "checkServerHealth health"; cases upload)
     (auto simp add: upload_defs split: if_splits)

text \<open>
  An upload refused by the service with status 400 and the body
  \<^verbatim>\<open>{error: "Unsupported file type"}\<close>, after an earlier upload and conversation.
\<close>

theorem upload_failed_frame_witness:
  "handleUpload (Fulfilled \<lparr> status = 200, data = JNull \<rparr>)
      (Rejected \<lparr> message = ''Request failed with status code 400'', code = Some ''ERR_BAD_REQUEST'',
                  response = Some \<lparr> status = 400,
                                     data = JObj [(''error'', JStr ''Unsupported file type'')] \<rparr> \<rparr>)
      (initial_state\<lparr> selectedFile := Some \<lparr> name = ''b.txt'', bytes = [] \<rparr>,
                      summary := JStr ''S'', documentId := JStr ''C123'', filename := JStr ''a.pdf'',
                      chatLog := [\<lparr> role = ''user'', content = JStr ''hi'' \<rparr>,
                                  \<lparr> role = ''assistant'', content = JStr ''hello'' \<rparr>] \<rparr>)
     = (initial_state\<lparr> selectedFile := Some \<lparr> name = ''b.txt'', bytes = [] \<rparr>,
                       summary := JStr ''S'', documentId := JStr ''C123'', filename := JStr ''a.pdf'',
                       chatLog := [\<lparr> role = ''user'', content = JStr ''hi'' \<rparr>,
                                   \<lparr> role = ''assistant'', content = JStr ''hello'' \<rparr>],
                       error := JStr ''Unsupported file type'',
                       uploadStatus := Some Failed \<rparr>,
        [HealthGet, UploadPost \<lparr> name = ''b.txt'', bytes = [] \<rparr>])
   \<and> documentId (initial_state\<lparr> selectedFile := Some \<lparr> name = ''b.txt'', bytes = [] \<rparr>,
                       summary := JStr ''S'', documentId := JStr ''C123'', filename := JStr ''a.pdf'',
                       chatLog := [\<lparr> role = ''user'', content = JStr ''hi'' \<rparr>,
                                   \<lparr> role = ''assistant'', content = JStr ''hello'' \<rparr>],
                       error := JStr ''Unsupported file type'',
                       uploadStatus := Some Failed \<rparr>) = JStr ''C123''"
proof -
  let ?st = "initial_state\<lparr> selectedFile := Some \<lparr> name = ''b.txt'', bytes = [] \<rparr>,
                      summary := JStr ''S'', documentId := JStr ''C123'', filename := JStr ''a.pdf'',
                      chatLog := [\<lparr> role = ''user'', content = JStr ''hi'' \<rparr>,
                                  \<lparr> role = ''assistant'', content = JStr ''hello'' \<rparr>] \<rparr>"
  let ?st' = "?st\<lparr> error := JStr ''Unsupported file type'', uploadStatus := Some Failed \<rparr>"
  let ?h = "Fulfilled \<lparr> status = 200, data = JNull \<rparr>"
  let ?u = "Rejected \<lparr> message = ''Request failed with status code 400'', code = Some ''ERR_BAD_REQUEST'',
                  response = Some \<lparr> status = 400,
                                     data = JObj [(''error'', JStr ''Unsupported file type'')] \<rparr> \<rparr>"
  have ran: "handleUpload ?h ?u ?st = (?st', [HealthGet, UploadPost \<lparr> name = ''b.txt'', bytes = [] \<rparr>])"
    by (simp add: upload_defs initial_state_def js_or_def reported_error_def opt_prop_def)
  have failed: "uploadStatus ?st' = Some Failed"
    by simp
  from upload_failed_frame [OF ran failed] have "documentId ?st' = documentId ?st"
    by blast
  with ran show ?thesis
    by simp
qed

subsection \<open>C10: the reply of a successful chat response\<close>

text \<open>
  C10, as the code has it. \<^verbatim>\<open>handleSendMessage\<close> does not validate a successful
  chat response. When its body is neither \<^verbatim>\<open>null\<close> nor \<^verbatim>\<open>undefined\<close>, whatever
  value is at \<^verbatim>\<open>reply\<close> (\<^verbatim>\<open>undefined\<close> when the body has no such property) becomes
  the content of the assistant turn as it is, and no error is recorded. When the body
  is \<^verbatim>\<open>null\<close> or \<^verbatim>\<open>undefined\<close>, reading \<^verbatim>\<open>reply\<close> throws, the \<^verbatim>\<open>catch\<close>
  block runs, and the assistant turn and the error message are both the fixed message
  \<^verbatim>\<open>An error occurred while processing your request.\<close>
\<close>

theorem ask_success_reply:
  assumes "trim (userMessage st) \<noteq> []"
  shows "(\<forall>reply. get_prop (data res) ''reply'' = Some reply \<longrightarrow>
            handleSendMessage (Fulfilled res) st =
              (st\<lparr> chatLog := chatLog st @
                                 [\<lparr> role = ''user'', content = JStr (userMessage st) \<rparr>,
                                  \<lparr> role = ''assistant'', content = reply \<rparr>],
                   userMessage := [], error := JStr [] \<rparr>,
               [ChatPost (userMessage st) (documentId st)]))
       \<and> (get_prop (data res) ''reply'' = None \<longrightarrow>
            handleSendMessage (Fulfilled res) st =
              (st\<lparr> chatLog := chatLog st @
                                 [\<lparr> role = ''user'', content = JStr (userMessage st) \<rparr>,
                                  \<lparr> role = ''assistant'',
                                    content = JStr ''An error occurred while processing your request.'' \<rparr>],
                   userMessage := [],
                   error := JStr ''An error occurred while processing your request.'' \<rparr>,
               [ChatPost (userMessage st) (documentId st)]))
       \<and> (get_prop (data res) ''reply'' = None \<longleftrightarrow> data res = JNull \<or> data res = JUndefined)"
  using assms
  by (cases "data res")
     (auto simp add: send_defs Let_def js_or_def reported_error_def type_error_def
        split: option.splits)

text \<open>A response with status 200 and the body \<^verbatim>\<open>{}\<close>: the assistant turn is \<^verbatim>\<open>undefined\<close>.\<close>

theorem ask_success_reply_witness:
  "trim (userMessage (initial_state\<lparr> userMessage := ''hi'' \<rparr>)) \<noteq> []
   \<and> get_prop (data \<lparr> status = 200, data = JObj [] \<rparr>) ''reply'' = Some JUndefined
   \<and> handleSendMessage (Fulfilled \<lparr> status = 200, data = JObj [] \<rparr>)
        (initial_state\<lparr> userMessage := ''hi'' \<rparr>) =
       (initial_state\<lparr> chatLog := [\<lparr> role = ''user'', content = JStr ''hi'' \<rparr>,
                                   \<lparr> role = ''assistant'', content = JUndefined \<rparr>] \<rparr>,
        [ChatPost ''hi'' (JStr [])])"
proof -
  let ?st = "initial_state\<lparr> userMessage := ''hi'' \<rparr>"
  let ?res = "\<lparr> status = 200, data = JObj [] \<rparr>"
  have nonblank: "trim (userMessage ?st) \<noteq> []"
    by (simp add: trim_def is_js_space_def)
  have reply: "get_prop (data ?res) ''reply'' = Some JUndefined"
    by simp
  from ask_success_reply [OF nonblank, of ?res] reply
  have "handleSendMessage (Fulfilled ?res) ?st =
          (?st\<lparr> chatLog := chatLog ?st @
                               [\<lparr> role = ''user'', content = JStr (userMessage ?st) \<rparr>,
                                \<lparr> role = ''assistant'', content = JUndefined \<rparr>],
                userMessage := [], error := JStr [] \<rparr>,
           [ChatPost (userMessage ?st) (documentId ?st)])"
    by blast
  with nonblank reply show ?thesis
    by (simp add: initial_state_def)
qed

text \<open>
  The statement that every successful chat response has the value at \<^verbatim>\<open>reply\<close>
  appended does not hold for the body \<^verbatim>\<open>null\<close>: the assistant turn is the fixed error
  message, which is also recorded as the error, and not the \<^verbatim>\<open>undefined\<close> that an
  absent reply would give.
\<close>

theorem ask_null_body_counterexample:
  "handleSendMessage (Fulfilled \<lparr> status = 200, data = JNull \<rparr>)
      (initial_state\<lparr> userMessage := ''hi'' \<rparr>) =
     (initial_state\<lparr> chatLog := [\<lparr> role = ''user'', content = JStr ''hi'' \<rparr>,
                                 \<lparr> role = ''assistant'',
                                   content = JStr ''An error occurred while processing your request.'' \<rparr>],
                     error := JStr ''An error occurred while processing your request.'' \<rparr>,
      [ChatPost ''hi'' (JStr [])])
   \<and> content (last (chatLog (fst (handleSendMessage (Fulfilled \<lparr> status = 200, data = JNull \<rparr>)
        (initial_state\<lparr> userMessage := ''hi'' \<rparr>))))) \<noteq> opt_prop JNull ''reply''"
  by (simp add: send_defs Let_def js_or_def reported_error_def type_error_def opt_prop_def
        initial_state_def trim_def is_js_space_def)

end
